theory Spec2Isabelle
  imports Main "HOL-Library.Sublist"
begin

section \<open>The Go library functions that gologs.go calls\<close>

text \<open>
  Go strings are byte sequences; they are modelled as \<open>string\<close> (a list of \<open>char\<close>,
  one per byte). The package calls \<open>fmt.Sprintf\<close>, \<open>fmt.Sprintln\<close>,
  \<open>strings.Replace\<close> and \<open>strconv.Itoa\<close>. Operands of the formatting functions
  (\<open>interface{}\<close> in Go) are restricted to values of dynamic type \<open>string\<close>.
\<close>

subsection \<open>strconv.Itoa\<close>

definition digit_char :: "nat \<Rightarrow> char" where
  "digit_char d = ''0123456789'' ! (d mod 10)"

fun nat_digits :: "nat \<Rightarrow> string" where
  "nat_digits n = (if n < 10 then [digit_char n] else nat_digits (n div 10) @ [digit_char n])"

declare nat_digits.simps [simp del]

definition Itoa :: "int \<Rightarrow> string" where
  "Itoa i = (if i < 0 then CHR ''-'' # nat_digits (nat (- i)) else nat_digits (nat i))"

subsection \<open>fmt.Sprintf and fmt.Sprintln on string operands\<close>

text \<open>
  \<open>fmt.Sprintf\<close> never panics on a format that does not fit its operands: it writes
  an error marker into the result (\<open>%!s(MISSING)\<close> for a verb without operand,
  \<open>%!d(string=x)\<close> for a verb that does not apply to a string, \<open>%!(EXTRA string=x)\<close>
  for operands left over, \<open>%!(NOVERB)\<close> for a percent sign at the end).

  The model covers literal text, \<open>%%\<close>, the verbs \<open>%s\<close> and \<open>%v\<close>, and the verbs of
  package fmt that do not apply to strings. Everything else after a percent sign (flags,
  width, precision, argument indices, \<open>%q\<close>, \<open>%x\<close>, \<open>%X\<close>, \<open>%T\<close>, \<open>%w\<close>, bytes that are
  no verb of fmt) is outside the model: there \<open>Sprintf\<close> is \<open>None\<close>, which says
  nothing about what Go prints.
\<close>

definition plain_verb :: "char \<Rightarrow> bool" where
  "plain_verb c = (c = CHR ''s'' \<or> c = CHR ''v'')"

definition bad_verb_for_string :: "char \<Rightarrow> bool" where
  "bad_verb_for_string c = (c \<in> set ''bcdeEfFgGoOptU'')"

fun join_extra :: "string list \<Rightarrow> string" where
  "join_extra [] = []"
| "join_extra [a] = ''string='' @ a"
| "join_extra (a # b # bs) = ''string='' @ a @ '', '' @ join_extra (b # bs)"

definition extra_operands :: "string list \<Rightarrow> string" where
  "extra_operands a = (if a = [] then [] else ''%!(EXTRA '' @ join_extra a @ '')'')"

fun Sprintf :: "string \<Rightarrow> string list \<Rightarrow> string option" where
  "Sprintf [] a = Some (extra_operands a)"
| "Sprintf [c] a =
     (if c = CHR ''%'' then Some (''%!(NOVERB)'' @ extra_operands a)
      else Some (c # extra_operands a))"
| "Sprintf (c # v # fs) a =
     (if c \<noteq> CHR ''%'' then map_option ((#) c) (Sprintf (v # fs) a)
      else if v = CHR ''%'' then map_option ((#) CHR ''%'') (Sprintf fs a)
      else if plain_verb v then
        (case a of
           [] \<Rightarrow> map_option ((@) (''%!'' @ [v] @ ''(MISSING)'')) (Sprintf fs [])
         | x # xs \<Rightarrow> map_option ((@) x) (Sprintf fs xs))
      else if bad_verb_for_string v then
        (case a of
           [] \<Rightarrow> map_option ((@) (''%!'' @ [v] @ ''(MISSING)'')) (Sprintf fs [])
         | x # xs \<Rightarrow> map_option ((@) (''%!'' @ [v] @ ''(string='' @ x @ '')'')) (Sprintf fs xs))
      else None)"

text \<open>\<open>fmt.Sprintln\<close>: the operands separated by spaces, then a newline.\<close>

fun join_spaces :: "string list \<Rightarrow> string" where
  "join_spaces [] = []"
| "join_spaces [a] = a"
| "join_spaces (a # b # bs) = a @ '' '' @ join_spaces (b # bs)"

definition Sprintln :: "string list \<Rightarrow> string" where
  "Sprintln a = join_spaces a @ ''\<newline>''"

subsection \<open>strings.Replace with n = -1\<close>

text \<open>
  All non-overlapping occurrences of \<open>old\<close> are replaced, scanning from the left.
  gologs.go calls it with the two non-empty literal tokens only; what Go does for an
  empty \<open>old\<close> is not modelled (the line is returned as it is).
\<close>

function Replace :: "string \<Rightarrow> string \<Rightarrow> string \<Rightarrow> string" where
  "Replace [] old new = []"
| "Replace (c # cs) old new =
     (if old \<noteq> [] \<and> prefix old (c # cs)
      then new @ Replace (drop (length old) (c # cs)) old new
      else c # Replace cs old new)"
  by pat_completeness auto
termination
  by (relation "measure (\<lambda>(s, old, new). length s)") (auto simp: neq_Nil_conv)

declare Replace.simps(2) [simp del]

section \<open>The environment: clock, standard output, writers and files\<close>

text \<open>
  Everything gologs.go does to the outside is an update of a \<open>world\<close>: the local
  time \<open>time.Now\<close> reads, the bytes written to \<open>os.Stdout\<close>, the bytes received by
  other in-memory \<open>io.Writer\<close>s (named by a number), the regular files by path, and
  the table of \<open>*os.File\<close> handles. \<open>refused\<close> holds the paths the operating system
  does not open for writing (a directory, a missing parent directory, missing
  permissions). The two mutexes of \<open>Logger\<close> are not modelled: calls run one after the
  other.
\<close>

record timestamp =
  year :: nat
  month :: nat
  day :: nat
  hour :: nat
  minute :: nat
  second :: nat

datatype open_flag = O_RDONLY | O_WRONLY | O_RDWR | O_APPEND | O_CREATE | O_TRUNC

datatype errno = ENOENT | EACCES | ErrClosed | ErrInvalid | EBADF

datatype os_error = PathError string string errno

record open_file =
  of_name :: string
  of_flags :: "open_flag set"
  of_offset :: nat
  of_closed :: bool

record world =
  now :: timestamp
  stdout :: string
  buffers :: "nat \<Rightarrow> string"
  files :: "string \<rightharpoonup> string"
  open_files :: "nat \<rightharpoonup> open_file"
  next_fd :: nat
  refused :: "string \<Rightarrow> bool"

definition errno_text :: "errno \<Rightarrow> string" where
  "errno_text e = (case e of
     ENOENT \<Rightarrow> ''no such file or directory''
   | EACCES \<Rightarrow> ''permission denied''
   | ErrClosed \<Rightarrow> ''file already closed''
   | ErrInvalid \<Rightarrow> ''invalid argument''
   | EBADF \<Rightarrow> ''bad file descriptor'')"

fun Error_text :: "os_error \<Rightarrow> string" where
  "Error_text (PathError op path e) = op @ '' '' @ path @ '': '' @ errno_text e"

text \<open>
  \<open>os.OpenFile(name, flag, perm)\<close>: the empty path and a refused path fail; a missing
  file is created empty under \<open>O_CREATE\<close>; an existing file keeps its content unless
  \<open>O_TRUNC\<close> is given. The permission bits are not modelled.
\<close>

definition mode_0666 :: nat where
  "mode_0666 = 6 * 64 + 6 * 8 + 6"

definition OpenFile :: "string \<Rightarrow> open_flag set \<Rightarrow> nat \<Rightarrow> world \<Rightarrow> (os_error + nat) \<times> world" where
  "OpenFile name flag perm w =
     (if name = [] then (Inl (PathError ''open'' name ENOENT), w)
      else if refused w name then (Inl (PathError ''open'' name EACCES), w)
      else if files w name = None \<and> O_CREATE \<notin> flag then (Inl (PathError ''open'' name ENOENT), w)
      else
        let content = (case files w name of
                         None \<Rightarrow> []
                       | Some old \<Rightarrow> if O_TRUNC \<in> flag then [] else old);
            fd = next_fd w
        in (Inr fd,
            w\<lparr>files := (files w)(name \<mapsto> content),
              open_files := (open_files w)(fd \<mapsto>
                 \<lparr>of_name = name, of_flags = flag, of_offset = 0, of_closed = False\<rparr>),
              next_fd := Suc fd\<rparr>))"

definition File_Close :: "nat \<Rightarrow> world \<Rightarrow> world" where
  "File_Close fd w =
     (case open_files w fd of
        None \<Rightarrow> w
      | Some f \<Rightarrow> w\<lparr>open_files := (open_files w)(fd \<mapsto> f\<lparr>of_closed := True\<rparr>)\<rparr>)"

text \<open>
  Writing through a handle: at the end of the file under \<open>O_APPEND\<close>, at the handle's
  offset otherwise (a gap is filled with zero bytes). A file that is no longer in the
  directory takes the bytes invisibly.
\<close>

definition File_Write :: "nat \<Rightarrow> string \<Rightarrow> world \<Rightarrow> os_error option \<times> world" where
  "File_Write fd s w =
     (case open_files w fd of
        None \<Rightarrow> (Some (PathError ''write'' [] ErrInvalid), w)
      | Some f \<Rightarrow>
          if of_closed f then (Some (PathError ''write'' (of_name f) ErrClosed), w)
          else if O_WRONLY \<notin> of_flags f \<and> O_RDWR \<notin> of_flags f
          then (Some (PathError ''write'' (of_name f) EBADF), w)
          else
            (case files w (of_name f) of
               None \<Rightarrow> (None, w)
             | Some content \<Rightarrow>
                 let pos = (if O_APPEND \<in> of_flags f then length content else of_offset f);
                     content' = take pos content @ replicate (pos - length content) (CHR 0x00)
                                @ s @ drop (pos + length s) content
                 in (None,
                     w\<lparr>files := (files w)(of_name f \<mapsto> content'),
                       open_files := (open_files w)(fd \<mapsto> f\<lparr>of_offset := pos + length s\<rparr>)\<rparr>)))"

text \<open>
  An \<open>io.Writer\<close> is \<open>os.Stdout\<close>, a file handle or an in-memory writer. A nil
  \<open>io.Writer\<close> is \<open>None\<close>: \<open>fmt.Fprint\<close> panics on it when it calls \<open>Write\<close>.
\<close>

datatype writer = Stdout | File nat | Buffer nat

datatype failure = NilFuncPanic | NilWriterPanic | FormatOutsideModel

definition Fprint :: "writer option \<Rightarrow> string \<Rightarrow> world \<Rightarrow> failure + world" where
  "Fprint wr s w =
     (case wr of
        None \<Rightarrow> Inl NilWriterPanic
      | Some Stdout \<Rightarrow> Inr (w\<lparr>stdout := stdout w @ s\<rparr>)
      | Some (File fd) \<Rightarrow> Inr (snd (File_Write fd s w))
      | Some (Buffer b) \<Rightarrow> Inr (w\<lparr>buffers := (buffers w)(b := buffers w b @ s)\<rparr>))"

definition Fprintf :: "writer option \<Rightarrow> string \<Rightarrow> string list \<Rightarrow> world \<Rightarrow> failure + world" where
  "Fprintf wr format a w =
     (case Sprintf format a of
        None \<Rightarrow> Inl FormatOutsideModel
      | Some s \<Rightarrow> Fprint wr s w)"

definition Println :: "string \<Rightarrow> world \<Rightarrow> world" where
  "Println s w = w\<lparr>stdout := stdout w @ s @ ''\<newline>''\<rparr>"

section \<open>Levels and the package-level registries\<close>

text \<open>
  \<open>LogLevel\<close> is Go's \<open>int\<close>; levels are only compared and printed, never computed
  with, so they are modelled as \<open>int\<close>.
\<close>

type_synonym LogLevel = int

abbreviation Debug :: LogLevel where "Debug \<equiv> 10"
abbreviation Info :: LogLevel where "Info \<equiv> 20"
abbreviation Hint :: LogLevel where "Hint \<equiv> 22"
abbreviation Important :: LogLevel where "Important \<equiv> 24"
abbreviation Warn :: LogLevel where "Warn \<equiv> 30"
abbreviation Error :: LogLevel where "Error \<equiv> 40"

type_synonym color_func = "string \<Rightarrow> string"

text \<open>
  The package variables \<open>Levels\<close>, \<open>DefaultColorMap\<close> and \<open>DefaultFormatterMap\<close> are
  mutable maps shared by all loggers. The colour helpers \<open>Yellow\<close>, \<open>RedBold\<close>, ...
  are defined in a file of the package that is not part of the sources at hand; they are
  parameters of the initial state.
\<close>

record globals =
  Levels :: "LogLevel \<rightharpoonup> string"
  DefaultColorMap :: "LogLevel \<rightharpoonup> color_func"
  DefaultFormatterMap :: "LogLevel \<rightharpoonup> string"

record palette =
  Yellow :: color_func
  RedBold :: color_func
  Cyan :: color_func
  CyanBold :: color_func
  YellowBold :: color_func
  PurpleBold :: color_func

definition defaultColor :: color_func where
  "defaultColor s = s"

definition initial_globals :: "palette \<Rightarrow> globals" where
  "initial_globals p =
     \<lparr>Levels = [Debug \<mapsto> ''Debug'', Info \<mapsto> ''Info'', Error \<mapsto> ''Error'',
                Warn \<mapsto> ''Warn'', Hint \<mapsto> ''Hint'', Important \<mapsto> ''Important''],
      DefaultColorMap = [Debug \<mapsto> Yellow p, Error \<mapsto> RedBold p, Info \<mapsto> Cyan p,
                         Hint \<mapsto> CyanBold p, Warn \<mapsto> YellowBold p, Important \<mapsto> PurpleBold p],
      DefaultFormatterMap =
        [Debug \<mapsto> ''[Debug] %s \<newline>'', Warn \<mapsto> ''[Warn] %s \<newline>'',
         Error \<mapsto> ''[Error] %s \<newline>'', Info \<mapsto> ''[-] %s {{suffix}}\<newline>'',
         Hint \<mapsto> ''[+] %s {{suffix}}\<newline>'', Important \<mapsto> ''[*] %s {{suffix}}\<newline>'']\<rparr>"

definition LogLevel_Name :: "globals \<Rightarrow> LogLevel \<Rightarrow> string" where
  "LogLevel_Name g l = (case Levels g l of Some name \<Rightarrow> name | None \<Rightarrow> Itoa l)"

definition LogLevel_Formatter :: "globals \<Rightarrow> LogLevel \<Rightarrow> string" where
  "LogLevel_Formatter g l =
     (case DefaultFormatterMap g l of
        Some formatter \<Rightarrow> formatter
      | None \<Rightarrow> ''['' @ LogLevel_Name g l @ ''] %s'')"

definition LogLevel_Color :: "globals \<Rightarrow> LogLevel \<Rightarrow> color_func" where
  "LogLevel_Color g l = (case DefaultColorMap g l of Some f \<Rightarrow> f | None \<Rightarrow> defaultColor)"

text \<open>
  \<open>AddLevel(level, name, opts...)\<close>: each option is switched on its dynamic type; a
  string sets the default formatter, a \<open>func(string) string\<close> the default colour, any
  other value is skipped.
\<close>

datatype opt = StringOpt string | ColorOpt color_func | OtherOpt

fun AddLevel_opts :: "LogLevel \<Rightarrow> opt list \<Rightarrow> globals \<Rightarrow> globals" where
  "AddLevel_opts level [] g = g"
| "AddLevel_opts level (StringOpt f # opts) g =
     AddLevel_opts level opts (g\<lparr>DefaultFormatterMap := (DefaultFormatterMap g)(level \<mapsto> f)\<rparr>)"
| "AddLevel_opts level (ColorOpt c # opts) g =
     AddLevel_opts level opts (g\<lparr>DefaultColorMap := (DefaultColorMap g)(level \<mapsto> c)\<rparr>)"
| "AddLevel_opts level (OtherOpt # opts) g = AddLevel_opts level opts g"

definition AddLevel :: "LogLevel \<Rightarrow> string \<Rightarrow> opt list \<Rightarrow> globals \<Rightarrow> globals" where
  "AddLevel level name opts g = AddLevel_opts level opts (g\<lparr>Levels := (Levels g)(level \<mapsto> name)\<rparr>)"

section \<open>Logger\<close>

text \<open>
  A Go map is a reference: \<open>NewLogger\<close> stores the package maps themselves in the
  logger, so a later \<open>AddLevel\<close> is seen through the logger's fields. A map field is
  therefore nil, the package map, or a map of the caller's. The fields that are nil in
  the zero value of the struct and that the code calls or dereferences are options:
  the two producers, the log file and the writer.
\<close>

datatype 'a map_ref = NilMap | PackageMap | OwnMap "LogLevel \<rightharpoonup> 'a"

fun map_index :: "'a map_ref \<Rightarrow> (LogLevel \<rightharpoonup> 'a) \<Rightarrow> LogLevel \<Rightarrow> 'a option" where
  "map_index NilMap pkg l = None"
| "map_index PackageMap pkg l = pkg l"
| "map_index (OwnMap m) pkg l = m l"

record Logger =
  Quiet :: bool
  Clean :: bool
  Level :: LogLevel
  Color :: bool
  LogToFile :: bool
  LogFileName :: string
  SuffixFunc :: "(world \<Rightarrow> string) option"
  PrefixFunc :: "(world \<Rightarrow> string) option"
  logFile :: "nat option"
  writer :: "writer option"
  levels :: "string map_ref"
  formatter :: "string map_ref"
  colorMap :: "color_func map_ref"

definition pad_left :: "nat \<Rightarrow> string \<Rightarrow> string" where
  "pad_left n s = replicate (n - length s) (CHR ''0'') @ s"

definition getCurtime :: "world \<Rightarrow> string" where
  "getCurtime w =
     (let t = now w in
      pad_left 4 (nat_digits (year t)) @ ''-'' @ pad_left 2 (nat_digits (month t)) @ ''-''
      @ pad_left 2 (nat_digits (day t)) @ '' '' @ pad_left 2 (nat_digits (hour t)) @ '':''
      @ pad_left 2 (nat_digits (minute t)) @ ''.'' @ pad_left 2 (nat_digits (second t)))"

definition NewLogger :: "LogLevel \<Rightarrow> Logger" where
  "NewLogger level =
     \<lparr>Quiet = False, Clean = False, Level = level, Color = False, LogToFile = False,
      LogFileName = [],
      SuffixFunc = Some (\<lambda>w. '', '' @ getCurtime w),
      PrefixFunc = Some (\<lambda>w. []),
      logFile = None, writer = Some Stdout,
      levels = PackageMap, formatter = PackageMap, colorMap = PackageMap\<rparr>"

definition NewFileLogger :: "string \<Rightarrow> world \<Rightarrow> (Logger option \<times> os_error option) \<times> world" where
  "NewFileLogger filename w =
     (case OpenFile filename {O_RDWR, O_CREATE} mode_0666 w of
        (Inl err, w') \<Rightarrow> ((None, Some err), w')
      | (Inr file, w') \<Rightarrow>
          ((Some \<lparr>Quiet = False, Clean = False, Level = Warn, Color = False, LogToFile = False,
                  LogFileName = [],
                  SuffixFunc = Some (\<lambda>w. '', '' @ getCurtime w),
                  PrefixFunc = Some (\<lambda>w. []),
                  logFile = None, writer = Some (File file),
                  levels = PackageMap, formatter = PackageMap, colorMap = NilMap\<rparr>,
            None), w'))"

subsection \<open>Configuration\<close>

definition SetQuiet :: "bool \<Rightarrow> Logger \<Rightarrow> Logger" where
  "SetQuiet q log = log\<lparr>Quiet := q\<rparr>"

definition SetClean :: "bool \<Rightarrow> Logger \<Rightarrow> Logger" where
  "SetClean c log = log\<lparr>Clean := c\<rparr>"

definition SetColor :: "bool \<Rightarrow> Logger \<Rightarrow> Logger" where
  "SetColor c log = log\<lparr>Color := c\<rparr>"

definition InitLogFile :: "Logger \<Rightarrow> world \<Rightarrow> Logger \<times> world" where
  "InitLogFile log w =
     (let (log1, w1) = (case logFile log of
                          Some fd \<Rightarrow> (log\<lparr>logFile := None\<rparr>, File_Close fd w)
                        | None \<Rightarrow> (log, w))
      in case OpenFile (LogFileName log1) {O_CREATE, O_WRONLY, O_APPEND} mode_0666 w1 of
           (Inl err, w2) \<Rightarrow> (log1\<lparr>logFile := None\<rparr>, Println ''Error: Set log file is error'' w2)
         | (Inr file, w2) \<Rightarrow> (log1\<lparr>logFile := Some file\<rparr>, w2))"

definition SetIsLogToFile :: "bool \<Rightarrow> Logger \<Rightarrow> world \<Rightarrow> Logger \<times> world" where
  "SetIsLogToFile l log w =
     (let log1 = log\<lparr>LogToFile := l\<rparr> in
      if LogToFile log1 then InitLogFile log1 w
      else (case logFile log1 of
              Some fd \<Rightarrow> (log1\<lparr>logFile := None\<rparr>, File_Close fd w)
            | None \<Rightarrow> (log1, w)))"

definition SetColorMap :: "color_func map_ref \<Rightarrow> Logger \<Rightarrow> Logger" where
  "SetColorMap cm log = log\<lparr>colorMap := cm\<rparr>"

definition SetLevel :: "LogLevel \<Rightarrow> Logger \<Rightarrow> Logger" where
  "SetLevel l log = log\<lparr>Level := l\<rparr>"

definition SetOutput :: "writer option \<Rightarrow> Logger \<Rightarrow> Logger" where
  "SetOutput w log = log\<lparr>writer := w\<rparr>"

definition SetFile :: "string \<Rightarrow> Logger \<Rightarrow> Logger" where
  "SetFile filename log = log\<lparr>LogFileName := filename\<rparr>"

definition SetFormatter :: "string map_ref \<Rightarrow> Logger \<Rightarrow> Logger" where
  "SetFormatter f log = log\<lparr>formatter := f\<rparr>"

subsection \<open>Plain console output\<close>

definition Console :: "Logger \<Rightarrow> string \<Rightarrow> world \<Rightarrow> failure + world" where
  "Console log s w = (if \<not> Clean log then Fprint (writer log) s w else Inr w)"

definition Consolef :: "Logger \<Rightarrow> string \<Rightarrow> string list \<Rightarrow> world \<Rightarrow> failure + world" where
  "Consolef log format s w = (if \<not> Clean log then Fprintf (writer log) format s w else Inr w)"

definition FConsolef :: "Logger \<Rightarrow> writer option \<Rightarrow> string \<Rightarrow> string list \<Rightarrow> world \<Rightarrow> failure + world" where
  "FConsolef log wr format s w = (if \<not> Clean log then Fprintf wr format s w else Inr w)"

subsection \<open>Rendering and emission\<close>

text \<open>
  \<open>Format\<close> picks the template (the logger's map, then the package map, then the
  built-in \<open>[%s] %s \<close> with the level's name as first operand), formats, and replaces
  the token \<open>{{suffix}}\<close> and then the token \<open>{{prefix}}\<close> in the whole line. Both
  producers are called on every call, whether or not the line holds a token; calling a
  nil producer panics.
\<close>

definition Format :: "globals \<Rightarrow> Logger \<Rightarrow> LogLevel \<Rightarrow> string list \<Rightarrow> world \<Rightarrow> failure + string" where
  "Format g log level s w =
     (let formatted =
        (case map_index (formatter log) (DefaultFormatterMap g) level of
           Some f \<Rightarrow> Sprintf f s
         | None \<Rightarrow>
             (case DefaultFormatterMap g level of
                Some f \<Rightarrow> Sprintf f s
              | None \<Rightarrow> Sprintf ''[%s] %s '' (LogLevel_Name g level # s)))
      in case formatted of
           None \<Rightarrow> Inl FormatOutsideModel
         | Some line \<Rightarrow>
             (case SuffixFunc log of
                None \<Rightarrow> Inl NilFuncPanic
              | Some suf \<Rightarrow>
                  (case PrefixFunc log of
                     None \<Rightarrow> Inl NilFuncPanic
                   | Some pre \<Rightarrow>
                       Inr (Replace (Replace line ''{{suffix}}'' (suf w)) ''{{prefix}}'' (pre w)))))"

definition SetLevelColor :: "globals \<Rightarrow> Logger \<Rightarrow> LogLevel \<Rightarrow> string \<Rightarrow> string" where
  "SetLevelColor g log level line =
     (case map_index (colorMap log) (DefaultColorMap g) level of
        Some c \<Rightarrow> c line
      | None \<Rightarrow>
          (case DefaultColorMap g level of
             Some c \<Rightarrow> c line
           | None \<Rightarrow> line))"

definition writeToFile :: "Logger \<Rightarrow> string \<Rightarrow> world \<Rightarrow> world" where
  "writeToFile log line w =
     (case logFile log of
        None \<Rightarrow> Println ''Error: Log file is not initialized.'' w
      | Some fd \<Rightarrow>
          (case File_Write fd line w of
             (Some err, w') \<Rightarrow>
               w'\<lparr>stdout := stdout w' @ ''Error writing to logfile: '' @ Error_text err @ ''\<newline>''\<rparr>
           | (None, w') \<Rightarrow> w'))"

definition logInterface :: "globals \<Rightarrow> Logger \<Rightarrow> writer option \<Rightarrow> LogLevel \<Rightarrow> string \<Rightarrow> world \<Rightarrow> failure + world" where
  "logInterface g log wr level s w =
     (if \<not> Quiet log \<and> level \<ge> Level log then
        (case Format g log level [s] w of
           Inl e \<Rightarrow> Inl e
         | Inr line \<Rightarrow>
             (case (if Color log then Fprint wr (SetLevelColor g log level line) w
                    else Fprint wr line w) of
                Inl e \<Rightarrow> Inl e
              | Inr w' \<Rightarrow> Inr (if LogToFile log then writeToFile log line w' else w')))
      else Inr w)"

definition logInterfacef :: "globals \<Rightarrow> Logger \<Rightarrow> writer option \<Rightarrow> LogLevel \<Rightarrow> string \<Rightarrow> string list \<Rightarrow> world \<Rightarrow> failure + world" where
  "logInterfacef g log wr level format s w =
     (if \<not> Quiet log \<and> level \<ge> Level log then
        (case Sprintf format s of
           None \<Rightarrow> Inl FormatOutsideModel
         | Some msg \<Rightarrow>
             (case Format g log level [msg] w of
                Inl e \<Rightarrow> Inl e
              | Inr line \<Rightarrow>
                  (case (if Color log then Fprint wr (SetLevelColor g log level line) w
                         else Fprint wr line w) of
                     Inl e \<Rightarrow> Inl e
                   | Inr w' \<Rightarrow> Inr (if LogToFile log then writeToFile log line w' else w'))))
      else Inr w)"

subsection \<open>The leveled methods\<close>

text \<open>
  Each exported method is one call of \<open>logInterface\<close> or \<open>logInterfacef\<close>. A
  \<open>call\<close> names a method with its arguments, and \<open>perform\<close> runs it, so that a
  statement about every leveled call is a statement about every \<open>call\<close>.
\<close>

datatype call =
    Call_Log LogLevel string
  | Call_Logf LogLevel string "string list"
  | Call_FLogf "writer option" LogLevel "string list"
  | Call_Important string
  | Call_Importantf string "string list"
  | Call_FImportantf "writer option" string "string list"
  | Call_Info string
  | Call_Infof string "string list"
  | Call_Hint string
  | Call_Hintf string "string list"
  | Call_FInfof "writer option" string "string list"
  | Call_Error string
  | Call_Errorf string "string list"
  | Call_FErrorf "writer option" string "string list"
  | Call_Warn string
  | Call_Warnf string "string list"
  | Call_FWarnf "writer option" string "string list"
  | Call_Debug string
  | Call_Debugf string "string list"
  | Call_FDebugf "writer option" string "string list"

fun perform :: "globals \<Rightarrow> Logger \<Rightarrow> call \<Rightarrow> world \<Rightarrow> failure + world" where
  "perform g log (Call_Log level s) w = logInterface g log (writer log) level s w"
| "perform g log (Call_Logf level format s) w = logInterfacef g log (writer log) level format s w"
| "perform g log (Call_FLogf wr level s) w = logInterface g log wr level (Sprintln s) w"
| "perform g log (Call_Important s) w = logInterface g log (writer log) Important s w"
| "perform g log (Call_Importantf format s) w = logInterfacef g log (writer log) Important format s w"
| "perform g log (Call_FImportantf wr format s) w = logInterfacef g log wr Important format s w"
| "perform g log (Call_Info s) w = logInterface g log (writer log) Info s w"
| "perform g log (Call_Infof format s) w = logInterfacef g log (writer log) Info format s w"
| "perform g log (Call_Hint s) w = logInterface g log (writer log) Hint s w"
| "perform g log (Call_Hintf format s) w = logInterfacef g log (writer log) Hint format s w"
| "perform g log (Call_FInfof wr format s) w = logInterfacef g log wr Info format s w"
| "perform g log (Call_Error s) w = logInterface g log (writer log) Error s w"
| "perform g log (Call_Errorf format s) w = logInterfacef g log (writer log) Error format s w"
| "perform g log (Call_FErrorf wr format s) w = logInterfacef g log wr Error format s w"
| "perform g log (Call_Warn s) w = logInterface g log (writer log) Warn s w"
| "perform g log (Call_Warnf format s) w = logInterfacef g log (writer log) Warn format s w"
| "perform g log (Call_FWarnf wr format s) w = logInterfacef g log wr Warn format s w"
| "perform g log (Call_Debug s) w = logInterface g log (writer log) Debug s w"
| "perform g log (Call_Debugf format s) w = logInterfacef g log (writer log) Debug format s w"
| "perform g log (Call_FDebugf wr format s) w = logInterfacef g log wr Debug format s w"

text \<open>The level, the target writer and the message of a call, as its method passes them on.\<close>

fun call_level :: "call \<Rightarrow> LogLevel" where
  "call_level (Call_Log level s) = level"
| "call_level (Call_Logf level format s) = level"
| "call_level (Call_FLogf wr level s) = level"
| "call_level (Call_Important s) = Important"
| "call_level (Call_Importantf format s) = Important"
| "call_level (Call_FImportantf wr format s) = Important"
| "call_level (Call_Info s) = Info"
| "call_level (Call_Infof format s) = Info"
| "call_level (Call_Hint s) = Hint"
| "call_level (Call_Hintf format s) = Hint"
| "call_level (Call_FInfof wr format s) = Info"
| "call_level (Call_Error s) = Error"
| "call_level (Call_Errorf format s) = Error"
| "call_level (Call_FErrorf wr format s) = Error"
| "call_level (Call_Warn s) = Warn"
| "call_level (Call_Warnf format s) = Warn"
| "call_level (Call_FWarnf wr format s) = Warn"
| "call_level (Call_Debug s) = Debug"
| "call_level (Call_Debugf format s) = Debug"
| "call_level (Call_FDebugf wr format s) = Debug"

fun call_writer :: "Logger \<Rightarrow> call \<Rightarrow> writer option" where
  "call_writer log (Call_FLogf wr level s) = wr"
| "call_writer log (Call_FImportantf wr format s) = wr"
| "call_writer log (Call_FInfof wr format s) = wr"
| "call_writer log (Call_FErrorf wr format s) = wr"
| "call_writer log (Call_FWarnf wr format s) = wr"
| "call_writer log (Call_FDebugf wr format s) = wr"
| "call_writer log c = writer log"

fun call_message :: "call \<Rightarrow> string option" where
  "call_message (Call_Log level s) = Some s"
| "call_message (Call_Logf level format s) = Sprintf format s"
| "call_message (Call_FLogf wr level s) = Some (Sprintln s)"
| "call_message (Call_Important s) = Some s"
| "call_message (Call_Importantf format s) = Sprintf format s"
| "call_message (Call_FImportantf wr format s) = Sprintf format s"
| "call_message (Call_Info s) = Some s"
| "call_message (Call_Infof format s) = Sprintf format s"
| "call_message (Call_Hint s) = Some s"
| "call_message (Call_Hintf format s) = Sprintf format s"
| "call_message (Call_FInfof wr format s) = Sprintf format s"
| "call_message (Call_Error s) = Some s"
| "call_message (Call_Errorf format s) = Sprintf format s"
| "call_message (Call_FErrorf wr format s) = Sprintf format s"
| "call_message (Call_Warn s) = Some s"
| "call_message (Call_Warnf format s) = Sprintf format s"
| "call_message (Call_FWarnf wr format s) = Sprintf format s"
| "call_message (Call_Debug s) = Some s"
| "call_message (Call_Debugf format s) = Sprintf format s"
| "call_message (Call_FDebugf wr format s) = Sprintf format s"

section \<open>A concrete environment for evaluation\<close>

definition example_world :: world where
  "example_world =
     \<lparr>now = \<lparr>year = 2026, month = 10, day = 31, hour = 9, minute = 5, second = 7\<rparr>,
      stdout = [], buffers = (\<lambda>b. []), files = Map.empty, open_files = Map.empty,
      next_fd = 3, refused = (\<lambda>name. False)\<rparr>"

definition example_palette :: palette where
  "example_palette =
     \<lparr>Yellow = (\<lambda>s. ''<y>'' @ s @ ''</>''), RedBold = (\<lambda>s. ''<R>'' @ s @ ''</>''),
      Cyan = (\<lambda>s. ''<c>'' @ s @ ''</>''), CyanBold = (\<lambda>s. ''<C>'' @ s @ ''</>''),
      YellowBold = (\<lambda>s. ''<Y>'' @ s @ ''</>''), PurpleBold = (\<lambda>s. ''<P>'' @ s @ ''</>'')\<rparr>"

definition example_globals :: globals where
  "example_globals = initial_globals example_palette"

text \<open>
  The set-up of the package's test: a console logger with the log file \<open>1.txt\<close>
  switched on, in the example world.
\<close>

definition example_file_logging :: "Logger \<times> world" where
  "example_file_logging = SetIsLogToFile True (SetFile ''1.txt'' (NewLogger Debug)) example_world"

text \<open>
  A logger with a colour map of its own that overrides \<open>Info\<close> only, writing to an
  in-memory writer.
\<close>

definition example_own_colors :: "LogLevel \<rightharpoonup> color_func" where
  "example_own_colors = [Info \<mapsto> (\<lambda>s. ''<own>'' @ s @ ''</>'')]"

definition example_color_logger :: Logger where
  "example_color_logger =
     SetColorMap (OwnMap example_own_colors)
       (SetOutput (Some (Buffer 0)) (SetColor True (SetLevel 0 (fst example_file_logging))))"

section \<open>Properties\<close>

lemmas world_eval = example_world_def example_globals_def example_palette_def initial_globals_def
  NewLogger_def logInterface_def Format_def Fprint_def SetLevelColor_def writeToFile_def Println_def
  LogLevel_Name_def plain_verb_def bad_verb_for_string_def extra_operands_def Replace.simps
  getCurtime_def pad_left_def nat_digits.simps digit_char_def Itoa_def

subsection \<open>Every leveled method is one guarded emission\<close>

lemma logInterfacef_eq:
  "logInterfacef g log wr level format s w =
     (if \<not> Quiet log \<and> Level log \<le> level then
        (case Sprintf format s of
           None \<Rightarrow> Inl FormatOutsideModel
         | Some msg \<Rightarrow> logInterface g log wr level msg w)
      else Inr w)"
  by (simp add: logInterface_def logInterfacef_def split: option.splits)

lemma logInterface_blocked:
  "Quiet log \<or> level < Level log \<Longrightarrow> logInterface g log wr level s w = Inr w"
  by (auto simp: logInterface_def)

lemma perform_eq:
  "perform g log c w =
     (if \<not> Quiet log \<and> Level log \<le> call_level c then
        (case call_message c of
           None \<Rightarrow> Inl FormatOutsideModel
         | Some m \<Rightarrow> logInterface g log (call_writer log c) (call_level c) m w)
      else Inr w)"
  by (cases c) (auto simp: logInterfacef_eq logInterface_blocked split: option.splits)

text \<open>
  C1. A leveled call whose logger is quiet, or whose level is below the logger's minimum
  level, returns the world as it was: nothing reaches standard output, a writer or a
  file. Conversely a call that changes the world was made with quiet off and a level at
  or above the minimum.
\<close>

theorem leveled_call_guard:
  "(Quiet log \<or> call_level c < Level log \<longrightarrow> perform g log c w = Inr w) \<and>
   (\<forall>w'. perform g log c w = Inr w' \<and> w' \<noteq> w \<longrightarrow> \<not> Quiet log \<and> Level log \<le> call_level c)"
  by (auto simp: perform_eq)

theorem leveled_call_guard_witness:
  "(Quiet (NewLogger Warn) \<or> call_level (Call_Debugf ''%s'' [''x'']) < Level (NewLogger Warn)) \<and>
   perform example_globals (NewLogger Warn) (Call_Debugf ''%s'' [''x'']) example_world
     = Inr example_world \<and>
   perform example_globals (NewLogger Warn) (Call_Warn ''x'') example_world
     = Inr (example_world\<lparr>stdout := ''[Warn] x \<newline>''\<rparr>) \<and>
   example_world\<lparr>stdout := ''[Warn] x \<newline>''\<rparr> \<noteq> example_world \<and>
   \<not> Quiet (NewLogger Warn) \<and> Level (NewLogger Warn) \<le> call_level (Call_Warn ''x'')"
  using leveled_call_guard [of "NewLogger Warn" "Call_Debugf ''%s'' [''x'']" example_globals example_world]
    leveled_call_guard [of "NewLogger Warn" "Call_Warn ''x''" example_globals example_world]
  by (simp add: world_eval)

subsection \<open>What an emission that passes the guard does\<close>

lemma call_writer_Clean [simp]: "call_writer (log\<lparr>Clean := b\<rparr>) c = call_writer log c"
  by (cases c) simp_all

lemma logInterface_Clean [simp]:
  "logInterface g (log\<lparr>Clean := b\<rparr>) wr level m w = logInterface g log wr level m w"
  by (simp add: logInterface_def Format_def SetLevelColor_def writeToFile_def
        cong: option.case_cong sum.case_cong if_cong)

lemma perform_Clean: "perform g (log\<lparr>Clean := b\<rparr>) c w = perform g log c w"
  by (simp add: perform_eq split: option.splits)

lemma perform_emits:
  assumes "\<not> Quiet log" and "Level log \<le> call_level c"
    and "call_message c = Some m"
    and "Format g log (call_level c) [m] w = Inr line"
  shows "perform g log c w =
           (case Fprint (call_writer log c)
                   (if Color log then SetLevelColor g log (call_level c) line else line) w of
              Inl e \<Rightarrow> Inl e
            | Inr w' \<Rightarrow> Inr (if LogToFile log then writeToFile log line w' else w'))"
  using assms by (simp add: perform_eq logInterface_def)

lemma writeToFile_appends:
  assumes "logFile log = Some fd" and "open_files w fd = Some f" and "\<not> of_closed f"
    and "O_WRONLY \<in> of_flags f" and "O_APPEND \<in> of_flags f"
    and "files w (of_name f) = Some old"
  shows "writeToFile log line w =
           w\<lparr>files := (files w)(of_name f \<mapsto> old @ line),
             open_files := (open_files w)(fd \<mapsto> f\<lparr>of_offset := length old + length line\<rparr>)\<rparr>"
  using assms by (simp add: writeToFile_def File_Write_def)

lemma example_file_logging_eq:
  "example_file_logging =
     (NewLogger Debug\<lparr>LogToFile := True, LogFileName := ''1.txt'', logFile := Some 3\<rparr>,
      example_world\<lparr>files := [''1.txt'' \<mapsto> []],
        open_files := [3 \<mapsto> \<lparr>of_name = ''1.txt'', of_flags = {O_CREATE, O_WRONLY, O_APPEND},
                              of_offset = 0, of_closed = False\<rparr>],
        next_fd := 4\<rparr>)"
  by (simp add: example_file_logging_def SetIsLogToFile_def SetFile_def InitLogFile_def
        OpenFile_def NewLogger_def example_world_def Let_def)

lemmas file_eval = example_file_logging_eq File_Write_def SetClean_def SetColor_def SetLevel_def
  SetOutput_def

text \<open>
  C2 as stated fails: with the clean flag set, a leveled call that passes the guard still
  writes its line to the console writer. \<open>logInterface\<close> and \<open>logInterfacef\<close>
  never read \<open>Clean\<close>. Here \<open>Warn("x")\<close> on a clean logger puts the line on
  standard output.
\<close>

theorem clean_leveled_counterexample:
  "Clean (SetClean True (NewLogger Warn)) \<and>
   \<not> Quiet (SetClean True (NewLogger Warn)) \<and>
   Level (SetClean True (NewLogger Warn)) \<le> call_level (Call_Warn ''x'') \<and>
   stdout example_world = [] \<and>
   perform example_globals (SetClean True (NewLogger Warn)) (Call_Warn ''x'') example_world
     = Inr (example_world\<lparr>stdout := ''[Warn] x \<newline>''\<rparr>)"
  by (simp add: SetClean_def world_eval)

text \<open>
  C2, amended: the clean flag does not change what a leveled call does. It suppresses
  only \<open>Console\<close>, \<open>Consolef\<close> and \<open>FConsolef\<close>. A leveled call that passes the
  guard on a clean logger writes the (possibly coloured) line to its writer and then,
  when log-to-file is on, the line to the file.
\<close>

theorem clean_gates_console_only:
  "perform g (SetClean b log) c w = perform g log c w \<and>
   Console (SetClean True log) s w = Inr w \<and>
   Consolef (SetClean True log) format a w = Inr w \<and>
   FConsolef (SetClean True log) wr format a w = Inr w \<and>
   (Clean log \<and> \<not> Quiet log \<and> Level log \<le> call_level c \<and> call_message c = Some m \<and>
    Format g log (call_level c) [m] w = Inr line \<longrightarrow>
      perform g log c w =
        (case Fprint (call_writer log c)
                (if Color log then SetLevelColor g log (call_level c) line else line) w of
           Inl e \<Rightarrow> Inl e
         | Inr w' \<Rightarrow> Inr (if LogToFile log then writeToFile log line w' else w')))"
  by (simp add: perform_emits perform_Clean SetClean_def Console_def Consolef_def FConsolef_def)

theorem clean_gates_console_only_witness:
  "Clean (SetClean True (fst example_file_logging)) \<and>
   \<not> Quiet (SetClean True (fst example_file_logging)) \<and>
   Level (SetClean True (fst example_file_logging)) \<le> call_level (Call_Warn ''x'') \<and>
   call_message (Call_Warn ''x'') = Some ''x'' \<and>
   Format example_globals (SetClean True (fst example_file_logging)) (call_level (Call_Warn ''x''))
     [''x''] (snd example_file_logging) = Inr ''[Warn] x \<newline>'' \<and>
   map_sum id (\<lambda>w. (stdout w, files w ''1.txt''))
     (perform example_globals (SetClean True (fst example_file_logging)) (Call_Warn ''x'')
        (snd example_file_logging))
     = Inr (''[Warn] x \<newline>'', Some ''[Warn] x \<newline>'')"
  using clean_gates_console_only [where g = example_globals and b = True
      and log = "SetClean True (fst example_file_logging)" and c = "Call_Warn ''x''"
      and w = "snd example_file_logging" and m = "''x''" and line = "''[Warn] x \<newline>''"]
  by (simp add: file_eval world_eval)

lemma SetLevelColor_resolved:
  assumes "(colorMap log = OwnMap cm \<and> cm level = Some cf) \<or>
           ((colorMap log = NilMap \<or> colorMap log = PackageMap \<or>
             (colorMap log = OwnMap cm \<and> cm level = None)) \<and>
            (DefaultColorMap g level = Some cf \<or>
             (DefaultColorMap g level = None \<and> cf = (\<lambda>s. s))))"
  shows "SetLevelColor g log level line = cf line"
  using assms by (auto simp: SetLevelColor_def)

text \<open>
  C3: with colour on, the colour function of the level is applied to the whole line that
  \<open>Format\<close> returned, prefix and suffix already substituted, and the result goes to
  the writer; the file receives the line without colour. The colour function is the entry
  of the logger's own map when it has one for the level; otherwise (own map without the
  level, nil map, or the package map itself) the entry of \<open>DefaultColorMap\<close>; and the
  identity when neither has the level. For an in-memory writer and a log file open for
  appending, the writer grows by the coloured line and the file by the plain line.
\<close>

theorem color_wraps_rendered_line:
  assumes "\<not> Quiet log" and "Level log \<le> call_level c" and "Color log"
    and "call_message c = Some m"
    and "Format g log (call_level c) [m] w = Inr line"
    and "(colorMap log = OwnMap cm \<and> cm (call_level c) = Some cf) \<or>
         ((colorMap log = NilMap \<or> colorMap log = PackageMap \<or>
           (colorMap log = OwnMap cm \<and> cm (call_level c) = None)) \<and>
          (DefaultColorMap g (call_level c) = Some cf \<or>
           (DefaultColorMap g (call_level c) = None \<and> cf = (\<lambda>s. s))))"
  shows "perform g log c w =
           (case Fprint (call_writer log c) (cf line) w of
              Inl e \<Rightarrow> Inl e
            | Inr w' \<Rightarrow> Inr (if LogToFile log then writeToFile log line w' else w')) \<and>
         (call_writer log c = Some (Buffer b) \<and> LogToFile log \<and> logFile log = Some fd \<and>
          open_files w fd = Some f \<and> \<not> of_closed f \<and> O_WRONLY \<in> of_flags f \<and>
          O_APPEND \<in> of_flags f \<and> files w (of_name f) = Some old \<longrightarrow>
            (\<exists>w'. perform g log c w = Inr w' \<and>
                  buffers w' b = buffers w b @ cf line \<and>
                  files w' (of_name f) = Some (old @ line) \<and>
                  stdout w' = stdout w))"
proof -
  have colored: "SetLevelColor g log (call_level c) line = cf line"
    using assms(6) by (rule SetLevelColor_resolved)
  have run: "perform g log c w =
           (case Fprint (call_writer log c) (cf line) w of
              Inl e \<Rightarrow> Inl e
            | Inr w' \<Rightarrow> Inr (if LogToFile log then writeToFile log line w' else w'))"
    using perform_emits [OF assms(1,2,4,5)] assms(3) colored by simp
  have "\<exists>w'. perform g log c w = Inr w' \<and> buffers w' b = buffers w b @ cf line \<and>
            files w' (of_name f) = Some (old @ line) \<and> stdout w' = stdout w"
    if h: "call_writer log c = Some (Buffer b)" "LogToFile log" "logFile log = Some fd"
      "open_files w fd = Some f" "\<not> of_closed f" "O_WRONLY \<in> of_flags f"
      "O_APPEND \<in> of_flags f" "files w (of_name f) = Some old"
  proof -
    let ?w1 = "w\<lparr>buffers := (buffers w)(b := buffers w b @ cf line)\<rparr>"
    have "perform g log c w = Inr (writeToFile log line ?w1)"
      using run h(1,2) by (simp add: Fprint_def)
    moreover have "writeToFile log line ?w1 =
        ?w1\<lparr>files := (files ?w1)(of_name f \<mapsto> old @ line),
            open_files := (open_files ?w1)(fd \<mapsto> f\<lparr>of_offset := length old + length line\<rparr>)\<rparr>"
      by (rule writeToFile_appends) (use h in simp_all)
    ultimately show ?thesis by simp
  qed
  with run show ?thesis by blast
qed

lemma example_color_logger_eq:
  "example_color_logger =
     NewLogger Debug\<lparr>Level := 0, Color := True, LogToFile := True, LogFileName := ''1.txt'',
       logFile := Some 3, writer := Some (Buffer 0), colorMap := OwnMap example_own_colors\<rparr>"
  by (simp add: example_color_logger_def SetColorMap_def file_eval NewLogger_def)

lemma example_file_world_eq:
  "snd example_file_logging =
     example_world\<lparr>files := [''1.txt'' \<mapsto> []],
        open_files := [3 \<mapsto> \<lparr>of_name = ''1.txt'', of_flags = {O_CREATE, O_WRONLY, O_APPEND},
                              of_offset = 0, of_closed = False\<rparr>],
        next_fd := 4\<rparr>"
  by (simp add: example_file_logging_eq)

theorem color_wraps_rendered_line_witness:
  "colorMap example_color_logger = OwnMap example_own_colors \<and>
   example_own_colors Info = Some (\<lambda>s. ''<own>'' @ s @ ''</>'') \<and>
   example_own_colors Warn = None \<and>
   DefaultColorMap example_globals Warn = Some (YellowBold example_palette) \<and>
   example_own_colors 7 = None \<and> DefaultColorMap example_globals 7 = None \<and>
   map_sum id (\<lambda>w. (buffers w 0, files w ''1.txt'', stdout w))
     (perform example_globals example_color_logger (Call_Info ''up'') (snd example_file_logging))
     = Inr (''<own>[-] up , 2026-10-31 09:05.07\<newline></>'', Some ''[-] up , 2026-10-31 09:05.07\<newline>'', []) \<and>
   map_sum id (\<lambda>w. (buffers w 0, files w ''1.txt'', stdout w))
     (perform example_globals example_color_logger (Call_Warn ''up'') (snd example_file_logging))
     = Inr (''<Y>[Warn] up \<newline></>'', Some ''[Warn] up \<newline>'', []) \<and>
   map_sum id (\<lambda>w. (buffers w 0, files w ''1.txt'', stdout w))
     (perform example_globals example_color_logger (Call_Log 7 ''up'') (snd example_file_logging))
     = Inr (''[7] up '', Some ''[7] up '', [])"
proof -
  let ?f = "\<lparr>of_name = ''1.txt'', of_flags = {O_CREATE, O_WRONLY, O_APPEND},
            of_offset = 0, of_closed = False\<rparr>"
  have quiet: "\<not> Quiet example_color_logger" and color: "Color example_color_logger"
    by (simp_all add: example_color_logger_eq NewLogger_def)
  have sink: "LogToFile example_color_logger \<and> logFile example_color_logger = Some 3 \<and>
     open_files (snd example_file_logging) 3 = Some ?f \<and> \<not> of_closed ?f \<and>
     O_WRONLY \<in> of_flags ?f \<and> O_APPEND \<in> of_flags ?f \<and>
     files (snd example_file_logging) (of_name ?f) = Some []"
    by (simp add: example_color_logger_eq NewLogger_def example_file_world_eq)
  have own: "map_sum id (\<lambda>w. (buffers w 0, files w ''1.txt'', stdout w))
     (perform example_globals example_color_logger (Call_Info ''up'') (snd example_file_logging))
     = Inr (''<own>[-] up , 2026-10-31 09:05.07\<newline></>'', Some ''[-] up , 2026-10-31 09:05.07\<newline>'', [])"
  proof -
    have guard: "Level example_color_logger \<le> call_level (Call_Info ''up'')"
      and msg: "call_message (Call_Info ''up'') = Some ''up''"
      by (simp_all add: example_color_logger_eq NewLogger_def)
    have fmt: "Format example_globals example_color_logger (call_level (Call_Info ''up'')) [''up'']
        (snd example_file_logging) = Inr ''[-] up , 2026-10-31 09:05.07\<newline>''"
      by (simp add: example_color_logger_eq example_file_world_eq world_eval)
    have col: "(colorMap example_color_logger = OwnMap example_own_colors \<and>
          example_own_colors (call_level (Call_Info ''up'')) = Some (\<lambda>s. ''<own>'' @ s @ ''</>'')) \<or>
         ((colorMap example_color_logger = NilMap \<or> colorMap example_color_logger = PackageMap \<or>
           (colorMap example_color_logger = OwnMap example_own_colors \<and>
            example_own_colors (call_level (Call_Info ''up'')) = None)) \<and>
          (DefaultColorMap example_globals (call_level (Call_Info ''up'')) = Some (\<lambda>s. ''<own>'' @ s @ ''</>'') \<or>
           (DefaultColorMap example_globals (call_level (Call_Info ''up'')) = None \<and> (\<lambda>s. ''<own>'' @ s @ ''</>'') = (\<lambda>s. s))))"
      by (simp add: example_color_logger_eq NewLogger_def example_own_colors_def
            example_globals_def initial_globals_def)
    have wr: "call_writer example_color_logger (Call_Info ''up'') = Some (Buffer 0)"
      by (simp add: example_color_logger_eq NewLogger_def)
    from color_wraps_rendered_line [OF quiet guard color msg fmt col, of 0 3 ?f "[]"] wr sink
    obtain w' where "perform example_globals example_color_logger (Call_Info ''up'')
          (snd example_file_logging) = Inr w'"
      and "buffers w' 0 = buffers (snd example_file_logging) 0 @ (\<lambda>s. ''<own>'' @ s @ ''</>'') ''[-] up , 2026-10-31 09:05.07\<newline>''"
      and "files w' (of_name ?f) = Some ([] @ ''[-] up , 2026-10-31 09:05.07\<newline>'')"
      and "stdout w' = stdout (snd example_file_logging)"
      by blast
    then show ?thesis
      by (simp add: example_file_world_eq example_world_def example_palette_def)
  qed
  have dflt: "map_sum id (\<lambda>w. (buffers w 0, files w ''1.txt'', stdout w))
     (perform example_globals example_color_logger (Call_Warn ''up'') (snd example_file_logging))
     = Inr (''<Y>[Warn] up \<newline></>'', Some ''[Warn] up \<newline>'', [])"
  proof -
    have guard: "Level example_color_logger \<le> call_level (Call_Warn ''up'')"
      and msg: "call_message (Call_Warn ''up'') = Some ''up''"
      by (simp_all add: example_color_logger_eq NewLogger_def)
    have fmt: "Format example_globals example_color_logger (call_level (Call_Warn ''up'')) [''up'']
        (snd example_file_logging) = Inr ''[Warn] up \<newline>''"
      by (simp add: example_color_logger_eq example_file_world_eq world_eval)
    have col: "(colorMap example_color_logger = OwnMap example_own_colors \<and>
          example_own_colors (call_level (Call_Warn ''up'')) = Some (YellowBold example_palette)) \<or>
         ((colorMap example_color_logger = NilMap \<or> colorMap example_color_logger = PackageMap \<or>
           (colorMap example_color_logger = OwnMap example_own_colors \<and>
            example_own_colors (call_level (Call_Warn ''up'')) = None)) \<and>
          (DefaultColorMap example_globals (call_level (Call_Warn ''up'')) = Some (YellowBold example_palette) \<or>
           (DefaultColorMap example_globals (call_level (Call_Warn ''up'')) = None \<and> (YellowBold example_palette) = (\<lambda>s. s))))"
      by (simp add: example_color_logger_eq NewLogger_def example_own_colors_def
            example_globals_def initial_globals_def)
    have wr: "call_writer example_color_logger (Call_Warn ''up'') = Some (Buffer 0)"
      by (simp add: example_color_logger_eq NewLogger_def)
    from color_wraps_rendered_line [OF quiet guard color msg fmt col, of 0 3 ?f "[]"] wr sink
    obtain w' where "perform example_globals example_color_logger (Call_Warn ''up'')
          (snd example_file_logging) = Inr w'"
      and "buffers w' 0 = buffers (snd example_file_logging) 0 @ (YellowBold example_palette) ''[Warn] up \<newline>''"
      and "files w' (of_name ?f) = Some ([] @ ''[Warn] up \<newline>'')"
      and "stdout w' = stdout (snd example_file_logging)"
      by blast
    then show ?thesis
      by (simp add: example_file_world_eq example_world_def example_palette_def)
  qed
  have idt: "map_sum id (\<lambda>w. (buffers w 0, files w ''1.txt'', stdout w))
     (perform example_globals example_color_logger (Call_Log 7 ''up'') (snd example_file_logging))
     = Inr (''[7] up '', Some ''[7] up '', [])"
  proof -
    have guard: "Level example_color_logger \<le> call_level (Call_Log 7 ''up'')"
      and msg: "call_message (Call_Log 7 ''up'') = Some ''up''"
      by (simp_all add: example_color_logger_eq NewLogger_def)
    have fmt: "Format example_globals example_color_logger (call_level (Call_Log 7 ''up'')) [''up'']
        (snd example_file_logging) = Inr ''[7] up ''"
      by (simp add: example_color_logger_eq example_file_world_eq world_eval)
    have col: "(colorMap example_color_logger = OwnMap example_own_colors \<and>
          example_own_colors (call_level (Call_Log 7 ''up'')) = Some (\<lambda>s. s)) \<or>
         ((colorMap example_color_logger = NilMap \<or> colorMap example_color_logger = PackageMap \<or>
           (colorMap example_color_logger = OwnMap example_own_colors \<and>
            example_own_colors (call_level (Call_Log 7 ''up'')) = None)) \<and>
          (DefaultColorMap example_globals (call_level (Call_Log 7 ''up'')) = Some (\<lambda>s. s) \<or>
           (DefaultColorMap example_globals (call_level (Call_Log 7 ''up'')) = None \<and> (\<lambda>s. s) = (\<lambda>s. s))))"
      by (simp add: example_color_logger_eq NewLogger_def example_own_colors_def
            example_globals_def initial_globals_def)
    have wr: "call_writer example_color_logger (Call_Log 7 ''up'') = Some (Buffer 0)"
      by (simp add: example_color_logger_eq NewLogger_def)
    from color_wraps_rendered_line [OF quiet guard color msg fmt col, of 0 3 ?f "[]"] wr sink
    obtain w' where "perform example_globals example_color_logger (Call_Log 7 ''up'')
          (snd example_file_logging) = Inr w'"
      and "buffers w' 0 = buffers (snd example_file_logging) 0 @ (\<lambda>s. s) ''[7] up ''"
      and "files w' (of_name ?f) = Some ([] @ ''[7] up '')"
      and "stdout w' = stdout (snd example_file_logging)"
      by blast
    then show ?thesis
      by (simp add: example_file_world_eq example_world_def example_palette_def)
  qed
  have maps: "colorMap example_color_logger = OwnMap example_own_colors \<and>
     example_own_colors Info = Some (\<lambda>s. ''<own>'' @ s @ ''</>'') \<and>
     example_own_colors Warn = None \<and>
     DefaultColorMap example_globals Warn = Some (YellowBold example_palette) \<and>
     example_own_colors 7 = None \<and> DefaultColorMap example_globals 7 = None"
    by (simp add: example_color_logger_eq NewLogger_def example_own_colors_def
          example_globals_def initial_globals_def)
  from maps own dflt idt show ?thesis by blast
qed

end
